theory Spec2Isabelle
  imports Complex_Main "HOL-Library.Multiset"
begin

section \<open>Values shared by both modules\<close>

text \<open>
  A Python \<open>str\<close> that may hold Kannada text is a list of Unicode code points.
  File paths, dictionary keys and codec names are byte strings (\<open>string\<close>).
  A Python \<open>float\<close> duration or bitrate is taken as the rational number it denotes
  (NaN and the infinities are outside the model).
\<close>

type_synonym pystr = "nat list"

datatype exn =
    UnknownValueError
  | RequestError string
  | ValueError string
  | TypeError string
  | KeyError string
  | IndexError
  | OtherError string

section \<open>audiotranslate.py: chunked transcription\<close>

text \<open>The two literals appended on a failed chunk (lines 113 and 116), as code points.\<close>

definition unclear_sentinel :: pystr where
  "unclear_sentinel = [91, 3205, 3256, 3277, 3242, 3255, 3277, 3231, 93]"

definition error_sentinel :: pystr where
  "error_sentinel = [91, 3238, 3275, 3255, 93]"

definition space :: pystr where
  "space = [32]"

text \<open>What the functions print, with the values interpolated into each message.\<close>

datatype msg =
    ProcessingChunk int
  | ApiErrorInChunk int string
  | ErrorProcessingAudio exn
  | ConvertingToWav
  | ErrorConvertingAudio exn
  | AudioFilePath string
  | AdjustingNoise
  | ProcessingAudio
  | Transcribing
  | CouldNotUnderstand
  | CouldNotRequest string
  | ErrorDuringTranscription exn

text \<open>The observable effects, in the order they happen.\<close>

datatype 'a event =
    Print msg
  | SeekTo int
  | RecordFor rat
  | RecordAll
  | Recognize 'a

text \<open>
  The library calls the module makes, as the environment it runs in: each either
  returns or raises. \<open>'a\<close> is the recorded audio data handed to the recogniser.
  \<open>open_audio\<close> is entering \<open>sr.AudioFile(path)\<close>, \<open>duration_seconds\<close> reading
  that attribute of the opened file;
  \<open>record_chunk i d\<close> is \<open>recognizer.record(audio_file, duration=d)\<close> after
  \<open>seek(i)\<close>; \<open>record_whole\<close> is \<open>recognizer.record(audio_file)\<close>;
  \<open>export_wav\<close> is the body of \<open>convert_to_wav\<close>.
\<close>

record 'a speech_env =
  open_audio :: "string \<Rightarrow> exn option"
  duration_seconds :: "string \<Rightarrow> exn + rat"
  seek :: "int \<Rightarrow> exn option"
  record_chunk :: "int \<Rightarrow> rat \<Rightarrow> exn + 'a"
  recognize_google :: "'a \<Rightarrow> exn + pystr"
  export_wav :: "string \<Rightarrow> string \<Rightarrow> exn option"
  adjust_for_ambient_noise :: "string \<Rightarrow> exn option"
  record_whole :: "string \<Rightarrow> exn + 'a"

text \<open>Python's \<open>int(x)\<close> on a float: truncation towards zero.\<close>

definition py_int :: "rat \<Rightarrow> int" where
  "py_int x = (if 0 \<le> x then \<lfloor>x\<rfloor> else \<lceil>x\<rceil>)"

text \<open>Python's \<open>range(start, stop, step)\<close>: its length, its elements, and the
  ValueError on a zero step.\<close>

definition range_len :: "int \<Rightarrow> int \<Rightarrow> int \<Rightarrow> nat" where
  "range_len start stop step =
     (if 0 < step \<and> start < stop then nat ((stop - start - 1) div step + 1)
      else if step < 0 \<and> stop < start then nat ((start - stop - 1) div (- step) + 1)
      else 0)"

definition range_list :: "int \<Rightarrow> int \<Rightarrow> int \<Rightarrow> int list" where
  "range_list start stop step =
     map (\<lambda>k. start + int k * step) [0 ..< range_len start stop step]"

definition py_range :: "int \<Rightarrow> int \<Rightarrow> int \<Rightarrow> exn + int list" where
  "py_range start stop step =
     (if step = 0 then Inl (ValueError ''range() arg 3 must not be zero'')
      else Inr (range_list start stop step))"

text \<open>Python's \<open>sep.join(xs)\<close>.\<close>

fun join :: "pystr \<Rightarrow> pystr list \<Rightarrow> pystr" where
  "join sep [] = []"
| "join sep [x] = x"
| "join sep (x # y # ys) = x @ sep @ join sep (y # ys)"

text \<open>
  The inner \<open>try\<close> of the chunk loop (lines 105-116) applied to the outcome of
  \<open>recognize_google\<close> on chunk number \<open>n\<close>: the text to append and what is printed,
  or the exception that neither \<open>except\<close> clause catches.
\<close>

fun absorb :: "int \<Rightarrow> exn + pystr \<Rightarrow> exn + (msg list \<times> pystr)" where
  "absorb n (Inr chunk_text) = Inr ([], chunk_text)"
| "absorb n (Inl UnknownValueError) = Inr ([], unclear_sentinel)"
| "absorb n (Inl (RequestError e)) = Inr ([ApiErrorInChunk n e], error_sentinel)"
| "absorb n (Inl e) = Inl e"

text \<open>
  The \<open>for\<close> loop of lines 97-116 over the remaining start offsets, threading the
  effects so far and \<open>full_text\<close>. An exception leaves the loop at once.
\<close>

fun chunk_loop ::
  "'a speech_env \<Rightarrow> rat \<Rightarrow> int \<Rightarrow> int list \<Rightarrow> 'a event list \<Rightarrow> pystr list
    \<Rightarrow> 'a event list \<times> (exn + pystr list)" where
  "chunk_loop env audio_duration chunk_duration [] tr full_text = (tr, Inr full_text)"
| "chunk_loop env audio_duration chunk_duration (i # rest) tr full_text =
     (let n = i div chunk_duration + 1;
          tr1 = tr @ [Print (ProcessingChunk n), SeekTo i]
      in case seek env i of
           Some e \<Rightarrow> (tr1, Inl e)
         | None \<Rightarrow>
            (let d = min (of_int chunk_duration) (audio_duration - of_int i);
                 tr2 = tr1 @ [RecordFor d]
             in case record_chunk env i d of
                  Inl e \<Rightarrow> (tr2, Inl e)
                | Inr chunk \<Rightarrow>
                   (let tr3 = tr2 @ [Recognize chunk]
                    in case absorb n (recognize_google env chunk) of
                         Inl e \<Rightarrow> (tr3, Inl e)
                       | Inr (msgs, chunk_text) \<Rightarrow>
                           chunk_loop env audio_duration chunk_duration rest
                             (tr3 @ map Print msgs) (full_text @ [chunk_text]))))"

text \<open>
  \<open>transcribe_long_kannada_audio\<close> (lines 78-122): the effects and the returned value,
  \<open>None\<close> for Python's \<open>None\<close>. The outer \<open>except Exception\<close> prints the exception
  and returns \<open>None\<close>.
\<close>

definition transcribe_long_kannada_audio ::
  "'a speech_env \<Rightarrow> string \<Rightarrow> int \<Rightarrow> 'a event list \<times> pystr option" where
  "transcribe_long_kannada_audio env audio_file_path chunk_duration =
     (case open_audio env audio_file_path of
        Some e \<Rightarrow> ([Print (ErrorProcessingAudio e)], None)
      | None \<Rightarrow>
         (case duration_seconds env audio_file_path of
            Inl e \<Rightarrow> ([Print (ErrorProcessingAudio e)], None)
          | Inr audio_duration \<Rightarrow>
             (case py_range 0 (py_int audio_duration) chunk_duration of
                Inl e \<Rightarrow> ([Print (ErrorProcessingAudio e)], None)
              | Inr starts \<Rightarrow>
                 (case chunk_loop env audio_duration chunk_duration starts [] [] of
                    (tr, Inl e) \<Rightarrow> (tr @ [Print (ErrorProcessingAudio e)], None)
                  | (tr, Inr full_text) \<Rightarrow> (tr, Some (join space full_text))))))"

text \<open>The audio data handed to the recogniser during a run, in order.\<close>

fun recognized :: "'a event list \<Rightarrow> 'a list" where
  "recognized [] = []"
| "recognized (Recognize a # es) = a # recognized es"
| "recognized (e # es) = recognized es"

text \<open>
  The per-chunk output the specification describes, for comparison with the loop: the
  recognised text, or the sentinel of the failure. An exception of any other kind has
  no output (the last equation is never used where the backend keeps to its three
  outcomes).
\<close>

fun chunk_output :: "exn + pystr \<Rightarrow> pystr" where
  "chunk_output (Inr chunk_text) = chunk_text"
| "chunk_output (Inl UnknownValueError) = unclear_sentinel"
| "chunk_output (Inl (RequestError e)) = error_sentinel"
| "chunk_output (Inl e) = []"

text \<open>
  Whether processing the chunk that starts at \<open>i\<close> raises out of the loop body:
  the seek or the record raises, or recognition raises something other than the two
  exceptions the inner \<open>try\<close> catches.
\<close>

definition chunk_raises :: "'a speech_env \<Rightarrow> rat \<Rightarrow> int \<Rightarrow> int \<Rightarrow> bool" where
  "chunk_raises env D C i =
     (case seek env i of
        Some e \<Rightarrow> True
      | None \<Rightarrow>
         (case record_chunk env i (min (of_int C) (D - of_int i)) of
            Inl e \<Rightarrow> True
          | Inr chunk \<Rightarrow>
             (case recognize_google env chunk of
                Inr t \<Rightarrow> False
              | Inl UnknownValueError \<Rightarrow> False
              | Inl (RequestError d) \<Rightarrow> False
              | Inl e \<Rightarrow> True)))"

text \<open>
  Python's \<open>s.split(d)\<close> for a one-character delimiter \<open>d\<close>: the operation the
  round-trip property re-splits the transcript with (the module itself never splits).
\<close>

fun split_on :: "nat \<Rightarrow> pystr \<Rightarrow> pystr list" where
  "split_on d [] = [[]]"
| "split_on d (c # cs) =
     (if c = d then [] # split_on d cs
      else (case split_on d cs of
              w # ws \<Rightarrow> (c # w) # ws
            | [] \<Rightarrow> [[c]]))"

text \<open>
  A recogniser stub for concrete runs: a file of duration \<open>D\<close> that always opens,
  seeks and records; the recorded chunk is its (start, duration) pair, and recognition
  answers as \<open>backend\<close> says.
\<close>

definition stub_env :: "rat \<Rightarrow> (int \<times> rat \<Rightarrow> exn + pystr) \<Rightarrow> (int \<times> rat) speech_env" where
  "stub_env D backend =
     \<lparr> open_audio = (\<lambda>p. None),
       duration_seconds = (\<lambda>p. Inr D),
       seek = (\<lambda>i. None),
       record_chunk = (\<lambda>i d. Inr (i, d)),
       recognize_google = backend,
       export_wav = (\<lambda>p q. None),
       adjust_for_ambient_noise = (\<lambda>p. None),
       record_whole = (\<lambda>p. Inr (0, D)) \<rparr>"

section \<open>audiotranslate.py: whole-file transcription\<close>

text \<open>
  \<open>str.lower\<close> on the ASCII letters of a path. For the test \<open>.lower().endswith('.wav')\<close>
  this is all of \<open>lower\<close> that matters: no character outside ASCII lower-cases to one
  of the four characters of \<open>.wav\<close>.
\<close>

definition ascii_lower :: "char \<Rightarrow> char" where
  "ascii_lower c =
     (if 65 \<le> (of_char c :: nat) \<and> (of_char c :: nat) \<le> 90
      then char_of (of_char c + 32 :: nat) else c)"

definition lower :: "string \<Rightarrow> string" where
  "lower s = map ascii_lower s"

definition endswith :: "string \<Rightarrow> string \<Rightarrow> bool" where
  "endswith s suf = (length suf \<le> length s \<and> drop (length s - length suf) s = suf)"

text \<open>\<open>s.rsplit('.', 1)[0]\<close>: the text before the last dot, all of \<open>s\<close> without one.\<close>

definition rsplit_head :: "string \<Rightarrow> string" where
  "rsplit_head s =
     (if CHR ''.'' \<in> set s then rev (tl (dropWhile (\<lambda>c. c \<noteq> CHR ''.'') (rev s))) else s)"

text \<open>\<open>convert_to_wav\<close> (lines 16-26): what it prints and whether it succeeded.\<close>

definition convert_to_wav :: "'a speech_env \<Rightarrow> string \<Rightarrow> string \<Rightarrow> msg list \<times> bool" where
  "convert_to_wav env input_path output_path =
     (case export_wav env input_path output_path of
        None \<Rightarrow> ([], True)
      | Some e \<Rightarrow> ([ErrorConvertingAudio e], False))"

text \<open>The three \<open>except\<close> clauses of lines 68-76: what each prints; all return \<open>None\<close>.\<close>

fun report :: "exn \<Rightarrow> msg" where
  "report UnknownValueError = CouldNotUnderstand"
| "report (RequestError e) = CouldNotRequest e"
| "report e = ErrorDuringTranscription e"

text \<open>Lines 48-66, on the path that is opened, after the effects \<open>tr\<close> so far.\<close>

definition transcribe_opened ::
  "'a speech_env \<Rightarrow> string \<Rightarrow> 'a event list \<Rightarrow> 'a event list \<times> pystr option" where
  "transcribe_opened env audio_file_path tr =
     (let tr1 = tr @ [Print (AudioFilePath audio_file_path)]
      in case open_audio env audio_file_path of
           Some e \<Rightarrow> (tr1 @ [Print (report e)], None)
         | None \<Rightarrow>
            (let tr2 = tr1 @ [Print AdjustingNoise]
             in case adjust_for_ambient_noise env audio_file_path of
                  Some e \<Rightarrow> (tr2 @ [Print (report e)], None)
                | None \<Rightarrow>
                   (let tr3 = tr2 @ [Print ProcessingAudio, RecordAll]
                    in case record_whole env audio_file_path of
                         Inl e \<Rightarrow> (tr3 @ [Print (report e)], None)
                       | Inr audio \<Rightarrow>
                          (let tr4 = tr3 @ [Print Transcribing, Recognize audio]
                           in case recognize_google env audio of
                                Inl e \<Rightarrow> (tr4 @ [Print (report e)], None)
                              | Inr text \<Rightarrow> (tr4, Some text)))))"

text \<open>\<open>transcribe_kannada_audio\<close> (lines 28-76): the effects and the returned value.\<close>

definition transcribe_kannada_audio ::
  "'a speech_env \<Rightarrow> string \<Rightarrow> 'a event list \<times> pystr option" where
  "transcribe_kannada_audio env audio_file_path =
     (if \<not> endswith (lower audio_file_path) ''.wav'' then
        (let wav_path = rsplit_head audio_file_path @ ''.wav'';
             (msgs, converted) = convert_to_wav env audio_file_path wav_path;
             tr = Print ConvertingToWav # map Print msgs
         in if \<not> converted then (tr, None)
            else transcribe_opened env wav_path tr)
      else transcribe_opened env audio_file_path [])"

section \<open>ytb.py: format selection and audio extraction\<close>

text \<open>
  The values of a format dictionary. A \<open>str\<close> carries what \<open>float()\<close> makes of it:
  \<open>PyStr s (Some r)\<close> when \<open>float(s)\<close> is \<open>r\<close>, \<open>PyStr s None\<close> when it raises
  ValueError. \<open>PyList\<close> stands for a list or any other container \<open>float()\<close> rejects.
\<close>

datatype pyval =
    PyNone
  | PyBool bool
  | PyNum rat
  | PyStr string "rat option"
  | PyList "pyval list"

text \<open>A format dictionary, in the order of its keys; \<open>map_of\<close> is \<open>f.get\<close>.\<close>

type_synonym fmt = "(string \<times> pyval) list"

text \<open>\<open>f.get(key) == s\<close> for a string literal \<open>s\<close>.\<close>

definition get_is :: "fmt \<Rightarrow> string \<Rightarrow> string \<Rightarrow> bool" where
  "get_is f key s =
     (case map_of f key of
        Some (PyStr t c) \<Rightarrow> t = s
      | _ \<Rightarrow> False)"

text \<open>Lines 74-80 of \<open>get_available_formats\<close>, on the probed list \<open>formats\<close>.\<close>

definition audio_formats_of :: "fmt list \<Rightarrow> fmt list" where
  "audio_formats_of formats =
     (let audio_formats = filter (\<lambda>f. get_is f ''vcodec'' ''none'') formats
      in if audio_formats = []
         then filter (\<lambda>f. \<not> get_is f ''acodec'' ''none'') formats
         else audio_formats)"

text \<open>Python's truth value, \<open>v or 0\<close>, and \<open>float(v)\<close>.\<close>

fun truthy :: "pyval \<Rightarrow> bool" where
  "truthy PyNone = False"
| "truthy (PyBool b) = b"
| "truthy (PyNum r) = (r \<noteq> 0)"
| "truthy (PyStr s c) = (s \<noteq> [])"
| "truthy (PyList vs) = (vs \<noteq> [])"

definition or_zero :: "pyval \<Rightarrow> pyval" where
  "or_zero v = (if truthy v then v else PyNum 0)"

fun py_float :: "pyval \<Rightarrow> exn + rat" where
  "py_float PyNone = Inl (TypeError ''float() argument must be a string or a real number'')"
| "py_float (PyBool b) = Inr (if b then 1 else 0)"
| "py_float (PyNum r) = Inr r"
| "py_float (PyStr s (Some r)) = Inr r"
| "py_float (PyStr s None) = Inl (ValueError ''could not convert string to float'')"
| "py_float (PyList vs) = Inl (TypeError ''float() argument must be a string or a real number'')"

text \<open>The sort key of line 109: \<open>float(x.get('abr', 0) or 0)\<close>.\<close>

definition abr_key :: "fmt \<Rightarrow> exn + rat" where
  "abr_key x = py_float (or_zero (case map_of x ''abr'' of None \<Rightarrow> PyNum 0 | Some v \<Rightarrow> v))"

text \<open>The first exception among the keys, in list order: \<open>sorted\<close> computes every key
  before it compares any.\<close>

fun first_error :: "(exn + rat) list \<Rightarrow> exn option" where
  "first_error [] = None"
| "first_error (Inl e # ks) = Some e"
| "first_error (Inr k # ks) = first_error ks"

definition key_val :: "fmt \<Rightarrow> rat" where
  "key_val x = (case abr_key x of Inr k \<Rightarrow> k | Inl e \<Rightarrow> 0)"

text \<open>
  \<open>sorted(audio_formats, key=..., reverse=True)\<close> (lines 107-111). Python's sort is
  stable and stays so under \<open>reverse=True\<close>: entries of equal key keep their order.
  That is the stable ascending sort on the negated key.
\<close>

definition sort_formats :: "fmt list \<Rightarrow> exn + fmt list" where
  "sort_formats audio_formats =
     (case first_error (map abr_key audio_formats) of
        Some e \<Rightarrow> Inl e
      | None \<Rightarrow> Inr (sort_key (\<lambda>x. - key_val x) audio_formats))"

text \<open>
  Lines 102-113 of \<open>extract_audio_from_stream\<close> on the list \<open>get_available_formats\<close>
  returned: \<open>Inr None\<close> is the branch "No suitable audio formats found!", \<open>Inl\<close> an
  exception raised by the sort, \<open>Inr (Some b)\<close> the entry \<open>audio_formats[0]\<close>.
\<close>

definition best_audio :: "fmt list \<Rightarrow> exn + fmt option" where
  "best_audio audio_formats =
     (if audio_formats = [] then Inr None
      else (case sort_formats audio_formats of
              Inl e \<Rightarrow> Inl e
            | Inr [] \<Rightarrow> Inl IndexError
            | Inr (b # rest) \<Rightarrow> Inr (Some b)))"

text \<open>What \<open>ytb.py\<close> prints and the calls it makes to yt-dlp and the file system.\<close>

datatype ymsg =
    AudioFormatsJson "fmt list"
  | ErrorGettingFormats exn
  | NoSuitableFound
  | StartingExtraction string
  | UsingFormat "pyval option" "pyval option"
  | SavedTo string
  | ErrorExtracting exn

datatype yevent =
    YPrint ymsg
  | MakeDirs string
  | ExtractInfo string
  | WriteJson "fmt list"
  | Download pyval string string

text \<open>
  The environment of \<open>ytb.py\<close>: \<open>extract_info url\<close> is the probe's
  \<open>info.get('formats', [])\<close> or the exception raised on the way; \<open>write_json\<close> is the
  dump to \<open>data.json\<close>; \<open>download format outtmpl url\<close> is the \<open>with\<close> block of lines
  143-147; \<open>now\<close> is the formatted timestamp.
\<close>

record ytb_env =
  makedirs :: "string \<Rightarrow> exn option"
  extract_info :: "string \<Rightarrow> exn + fmt list"
  write_json :: "fmt list \<Rightarrow> exn option"
  now :: string
  download :: "pyval \<Rightarrow> string \<Rightarrow> string \<Rightarrow> exn option"

text \<open>\<open>get_available_formats\<close> (lines 55-83): any exception gives the empty list.\<close>

definition get_available_formats :: "ytb_env \<Rightarrow> string \<Rightarrow> yevent list \<times> fmt list" where
  "get_available_formats env url =
     (case extract_info env url of
        Inl e \<Rightarrow> ([ExtractInfo url, YPrint (ErrorGettingFormats e)], [])
      | Inr formats \<Rightarrow>
         (case write_json env formats of
            Some e \<Rightarrow> ([ExtractInfo url, WriteJson formats, YPrint (ErrorGettingFormats e)], [])
          | None \<Rightarrow>
             ([ExtractInfo url, WriteJson formats, YPrint (AudioFormatsJson formats)],
              audio_formats_of formats)))"

text \<open>\<open>os.path.join\<close> of a directory and a file name (POSIX).\<close>

definition path_join :: "string \<Rightarrow> string \<Rightarrow> string" where
  "path_join a b =
     (if b \<noteq> [] \<and> hd b = CHR ''/'' then b
      else if a = [] \<or> last a = CHR ''/'' then a @ b
      else a @ ''/'' @ b)"

text \<open>
  \<open>extract_audio_from_stream\<close> (lines 85-154): the effects, and the returned value
  (\<open>Inr None\<close> for \<open>None\<close>) or the exception that reaches the caller (\<open>Inl\<close>): only the
  download stands inside a \<open>try\<close>.
\<close>

definition extract_audio_from_stream ::
  "ytb_env \<Rightarrow> string \<Rightarrow> string \<Rightarrow> yevent list \<times> (exn + string option)" where
  "extract_audio_from_stream env url output_dir =
     (case makedirs env output_dir of
        Some e \<Rightarrow> ([MakeDirs output_dir], Inl e)
      | None \<Rightarrow>
         (let (tr0, audio_formats) = get_available_formats env url;
              tr = MakeDirs output_dir # tr0
          in case best_audio audio_formats of
               Inr None \<Rightarrow> (tr @ [YPrint NoSuitableFound], Inr None)
             | Inl e \<Rightarrow> (tr, Inl e)
             | Inr (Some b) \<Rightarrow>
                (case map_of b ''format_id'' of
                   None \<Rightarrow> (tr, Inl (KeyError ''format_id''))
                 | Some format_id \<Rightarrow>
                    (let output_path = path_join output_dir (''audio_stream_'' @ now env);
                         tr1 = tr @ [YPrint (StartingExtraction url),
                                     YPrint (UsingFormat (map_of b ''format'') (map_of b ''abr'')),
                                     Download format_id output_path url]
                     in case download env format_id output_path url of
                          Some e \<Rightarrow> (tr1 @ [YPrint (ErrorExtracting e)], Inr None)
                        | None \<Rightarrow>
                           (tr1 @ [YPrint (SavedTo output_path)],
                            Inr (Some (output_path @ ''.mp3'')))))))"

text \<open>The downloads a run started.\<close>

fun downloads :: "yevent list \<Rightarrow> pyval list" where
  "downloads [] = []"
| "downloads (Download f p u # es) = f # downloads es"
| "downloads (e # es) = downloads es"

text \<open>A yt-dlp stub for concrete runs: the probe answers \<open>formats\<close>, nothing fails.\<close>

definition stub_ytb :: "fmt list \<Rightarrow> ytb_env" where
  "stub_ytb formats =
     \<lparr> makedirs = (\<lambda>d. None),
       extract_info = (\<lambda>u. Inr formats),
       write_json = (\<lambda>fs. None),
       now = ''20240101_000000'',
       download = (\<lambda>f p u. None) \<rparr>"



section \<open>Properties of chunked transcription\<close>

lemma range_list_empty: "stop \<le> start \<Longrightarrow> 0 < step \<Longrightarrow> range_list start stop step = []"
  by (simp add: range_list_def range_len_def)

lemma py_int_lt_one: "x < 1 \<Longrightarrow> py_int x \<le> 0"
  by (auto simp: py_int_def ceiling_le_iff floor_le_iff)

lemma recognized_append: "recognized (xs @ ys) = recognized xs @ recognized ys"
  by (induction xs rule: recognized.induct) simp_all

lemma recognized_prints: "recognized (map Print ms) = []"
  by (induction ms) simp_all

lemma absorb_ok:
  "(\<exists>t. r = Inr t) \<or> r = Inl UnknownValueError \<or> (\<exists>d. r = Inl (RequestError d))
   \<Longrightarrow> \<exists>ms. absorb n r = Inr (ms, chunk_output r)"
  by auto

lemma sentinels_differ:
  "unclear_sentinel \<noteq> error_sentinel \<and> unclear_sentinel \<noteq> [] \<and> error_sentinel \<noteq> []"
  by (simp add: unclear_sentinel_def error_sentinel_def)

text \<open>
  Where every chunk seeks and records, and recognition keeps to its three outcomes, the
  loop runs to the end: one output per start offset, in order, each chunk recognised once.
\<close>

lemma chunk_loop_ok:
  assumes "\<forall>i\<in>set starts. seek env i = None
            \<and> record_chunk env i (min (of_int C) (D - of_int i)) = Inr (audio i)
            \<and> ((\<exists>t. recognize_google env (audio i) = Inr t)
               \<or> recognize_google env (audio i) = Inl UnknownValueError
               \<or> (\<exists>d. recognize_google env (audio i) = Inl (RequestError d)))"
  shows "snd (chunk_loop env D C starts tr acc)
           = Inr (acc @ map (\<lambda>i. chunk_output (recognize_google env (audio i))) starts)
         \<and> recognized (fst (chunk_loop env D C starts tr acc))
           = recognized tr @ map audio starts"
  using assms
proof (induction starts arbitrary: tr acc)
  case Nil
  then show ?case by simp
next
  case (Cons i rest)
  from Cons.prems obtain ms where
    a: "absorb (i div C + 1) (recognize_google env (audio i))
          = Inr (ms, chunk_output (recognize_google env (audio i)))"
    using absorb_ok [of "recognize_google env (audio i)" "i div C + 1"] by auto
  from Cons.prems have s: "seek env i = None"
    and r: "record_chunk env i (min (of_int C) (D - of_int i)) = Inr (audio i)" by auto
  from Cons.prems have rest: "\<forall>i\<in>set rest. seek env i = None
            \<and> record_chunk env i (min (of_int C) (D - of_int i)) = Inr (audio i)
            \<and> ((\<exists>t. recognize_google env (audio i) = Inr t)
               \<or> recognize_google env (audio i) = Inl UnknownValueError
               \<or> (\<exists>d. recognize_google env (audio i) = Inl (RequestError d)))" by simp
  show ?case
    using Cons.IH [OF rest] s r a
    by (simp add: Let_def recognized_append recognized_prints)
qed

text \<open>The loop ends in an exception exactly when some chunk raises.\<close>

lemma chunk_loop_raises_iff:
  "(\<exists>e. snd (chunk_loop env D C starts tr acc) = Inl e)
     \<longleftrightarrow> (\<exists>i\<in>set starts. chunk_raises env D C i)"
proof (induction starts arbitrary: tr acc)
  case Nil
  then show ?case by simp
next
  case (Cons i rest)
  show ?case
    by (cases "seek env i"; cases "record_chunk env i (min (of_int C) (D - of_int i))")
       (auto simp: Let_def chunk_raises_def Cons.IH split: sum.splits exn.splits prod.splits)
qed

lemma chunk_loop_append:
  "chunk_loop env D C (pre @ rest) tr acc =
     (case chunk_loop env D C pre tr acc of
        (tr', Inl e) \<Rightarrow> (tr', Inl e)
      | (tr', Inr acc') \<Rightarrow> chunk_loop env D C rest tr' acc')"
  by (induction pre arbitrary: tr acc)
     (auto simp: Let_def split: option.splits sum.splits prod.splits)

text \<open>
  C1. At a duration of 30.5 seconds and the default chunk size of 30, the run makes one
  chunk, \<open>[0, 30)\<close>: \<open>range(0, int(30.5), 30)\<close> is \<open>[0]\<close>. The claim's count is
  \<open>ceil(30.5 / 30) = 2\<close>, and the last half second is never recorded.
\<close>

theorem C1_fractional_tail_not_transcribed:
  "transcribe_long_kannada_audio (stub_env (61 / 2) (\<lambda>c. Inr [104, 105])) ''a.wav'' 30
     = ([Print (ProcessingChunk 1), SeekTo 0, RecordFor 30, Recognize (0, 30)],
        Some [104, 105])
   \<and> \<lceil>(61 / 2 :: rat) / 30\<rceil> = 2"
proof -
  have "\<lceil>(61 / 2 :: rat) / 30\<rceil> = 2"
    by (rule ceiling_unique) simp_all
  then show ?thesis
    by (simp add: transcribe_long_kannada_audio_def stub_env_def py_range_def range_list_def
        range_len_def py_int_def Let_def)
qed

text \<open>
  C2. With the artifact open and every chunk seeking and recording, whatever the backend
  answers on each chunk (a text, "cannot decode speech", or a request error), the run
  returns a transcript: the per-chunk outputs in chunk order joined by single spaces, one
  output per chunk, the text where recognition succeeded, the "unclear" sentinel where it
  could not decode, the "error" sentinel where the call failed. Every chunk is handed to
  the backend, in order, whatever happened to the chunks before it. The two sentinels
  differ and neither is empty.
\<close>

theorem C2_chunk_failures_become_sentinels:
  assumes "open_audio env path = None" and "duration_seconds env path = Inr D" and "C \<noteq> 0"
    and "\<forall>i\<in>set (range_list 0 (py_int D) C). seek env i = None
            \<and> record_chunk env i (min (of_int C) (D - of_int i)) = Inr (audio i)
            \<and> ((\<exists>t. recognize_google env (audio i) = Inr t)
               \<or> recognize_google env (audio i) = Inl UnknownValueError
               \<or> (\<exists>d. recognize_google env (audio i) = Inl (RequestError d)))"
  shows "snd (transcribe_long_kannada_audio env path C)
           = Some (join [32] (map (\<lambda>i. chunk_output (recognize_google env (audio i)))
                                  (range_list 0 (py_int D) C)))
         \<and> recognized (fst (transcribe_long_kannada_audio env path C))
           = map audio (range_list 0 (py_int D) C)
         \<and> unclear_sentinel \<noteq> error_sentinel
         \<and> unclear_sentinel \<noteq> [] \<and> error_sentinel \<noteq> []"
proof -
  obtain tr res where cl: "chunk_loop env D C (range_list 0 (py_int D) C) [] [] = (tr, res)"
    by (cases "chunk_loop env D C (range_list 0 (py_int D) C) [] []") auto
  from chunk_loop_ok [OF assms(4), of "[]" "[]"] cl
  have res: "res = Inr (map (\<lambda>i. chunk_output (recognize_google env (audio i)))
                          (range_list 0 (py_int D) C))"
    and tr: "recognized tr = map audio (range_list 0 (py_int D) C)" by simp_all
  show ?thesis
    using assms(1,2,3) cl res tr sentinels_differ
    by (simp add: transcribe_long_kannada_audio_def py_range_def space_def)
qed

theorem C2_witness:
  "snd (transcribe_long_kannada_audio
          (stub_env 150 (\<lambda>c. if fst c = 60 then Inl UnknownValueError
                              else if fst c = 0 then Inl (RequestError ''quota'')
                              else Inr [104, 105]))
          ''a.wav'' 30)
     = Some (join [32] [error_sentinel, [104, 105], unclear_sentinel, [104, 105], [104, 105]])
   \<and> recognized (fst (transcribe_long_kannada_audio
          (stub_env 150 (\<lambda>c. if fst c = 60 then Inl UnknownValueError
                              else if fst c = 0 then Inl (RequestError ''quota'')
                              else Inr [104, 105]))
          ''a.wav'' 30))
     = [(0, 30), (30, 30), (60, 30), (90, 30), (120, 30)]"
proof -
  let ?b = "\<lambda>c :: int \<times> rat. if fst c = 60 then Inl UnknownValueError
              else if fst c = 0 then Inl (RequestError ''quota'')
              else (Inr [104, 105] :: exn + pystr)"
  let ?env = "stub_env 150 ?b"
  let ?audio = "\<lambda>i :: int. (i, min (30 :: rat) (150 - of_int i))"
  have r: "range_list 0 (py_int 150) 30 = [0, 30, 60, 90, 120]"
    by (simp add: range_list_def range_len_def py_int_def upt_rec)
  have h: "\<forall>i\<in>set (range_list 0 (py_int 150) 30). seek ?env i = None
            \<and> record_chunk ?env i (min (of_int 30) (150 - of_int i)) = Inr (?audio i)
            \<and> ((\<exists>t. recognize_google ?env (?audio i) = Inr t)
               \<or> recognize_google ?env (?audio i) = Inl UnknownValueError
               \<or> (\<exists>d. recognize_google ?env (?audio i) = Inl (RequestError d)))"
    unfolding r by (simp add: stub_env_def)
  have "open_audio ?env ''a.wav'' = None" "duration_seconds ?env ''a.wav'' = Inr 150"
      "(30 :: int) \<noteq> 0"
    by (simp_all add: stub_env_def)
  from C2_chunk_failures_become_sentinels [OF this h]
  show ?thesis unfolding r by (simp add: stub_env_def)
qed

text \<open>
  C10. An artifact shorter than one second, with a positive chunk duration: the loop
  runs over \<open>range(0, int(duration), chunk_duration)\<close>, which is empty, so nothing is
  sought, recorded or sent to the backend, and the empty string is returned, not
  \<open>None\<close>.
\<close>

theorem C10_short_audio_empty_transcript:
  assumes "open_audio env path = None" and "duration_seconds env path = Inr D"
    and "D < 1" and "0 < C"
  shows "transcribe_long_kannada_audio env path C = ([], Some [])"
  using assms py_int_lt_one [of D]
  by (simp add: transcribe_long_kannada_audio_def py_range_def range_list_empty)

theorem C10_witness:
  "transcribe_long_kannada_audio (stub_env (1/2) (\<lambda>c. Inr [104, 105])) ''a.wav'' 30
     = ([], Some [])"
proof -
  have "open_audio (stub_env (1/2) (\<lambda>c. Inr [104, 105])) ''a.wav'' = None"
    "duration_seconds (stub_env (1/2) (\<lambda>c. Inr [104, 105])) ''a.wav'' = Inr (1/2)"
    "(1/2 :: rat) < 1" "(0::int) < 30"
    by (simp_all add: stub_env_def)
  from C10_short_audio_empty_transcript [OF this] show ?thesis .
qed

text \<open>Where no chunk raises, the loop ends with the full list of outputs.\<close>

lemma chunk_loop_fine:
  assumes "\<forall>i\<in>set starts. \<not> chunk_raises env D C i"
  shows "\<exists>tr' acc'. chunk_loop env D C starts tr acc = (tr', Inr acc')"
proof -
  have "\<not> (\<exists>e. snd (chunk_loop env D C starts tr acc) = Inl e)"
    using assms chunk_loop_raises_iff [of env D C starts tr acc] by simp
  then show ?thesis
    by (cases "chunk_loop env D C starts tr acc"; cases "snd (chunk_loop env D C starts tr acc)")
       auto
qed

text \<open>
  C9, as the code has it. The whole operation gives \<open>None\<close> exactly when a call raises
  outside the inner \<open>try\<close>: opening the artifact, reading its duration, \<open>range\<close> on a
  zero chunk duration, or a chunk whose seek or record raises or whose recognition raises
  something other than the two per-chunk exceptions. A failed open ends the run with the
  exception printed and \<open>None\<close> returned; a failed seek ends it at that chunk, the
  chunks after it untouched, again printed and \<open>None\<close> returned. The reason reaches the
  caller only as printed text.
\<close>

theorem C9_whole_run_failure_returns_None:
  "(snd (transcribe_long_kannada_audio env path C) = None \<longleftrightarrow>
      (\<exists>e. open_audio env path = Some e)
      \<or> (open_audio env path = None \<and> (\<exists>e. duration_seconds env path = Inl e))
      \<or> (open_audio env path = None \<and>
          (\<exists>D. duration_seconds env path = Inr D \<and>
             (C = 0 \<or> (\<exists>i\<in>set (range_list 0 (py_int D) C). chunk_raises env D C i)))))
   \<and> (\<forall>e. open_audio env path = Some e \<longrightarrow>
         transcribe_long_kannada_audio env path C = ([Print (ErrorProcessingAudio e)], None))
   \<and> (\<forall>D pre i post e.
         open_audio env path = None \<and> duration_seconds env path = Inr D \<and> C \<noteq> 0
         \<and> range_list 0 (py_int D) C = pre @ i # post
         \<and> (\<forall>j\<in>set pre. \<not> chunk_raises env D C j) \<and> seek env i = Some e
         \<longrightarrow> transcribe_long_kannada_audio env path C
              = (fst (chunk_loop env D C pre [] [])
                   @ [Print (ProcessingChunk (i div C + 1)), SeekTo i,
                      Print (ErrorProcessingAudio e)],
                 None))"
proof (intro conjI allI impI)
  show "snd (transcribe_long_kannada_audio env path C) = None \<longleftrightarrow>
      (\<exists>e. open_audio env path = Some e)
      \<or> (open_audio env path = None \<and> (\<exists>e. duration_seconds env path = Inl e))
      \<or> (open_audio env path = None \<and>
          (\<exists>D. duration_seconds env path = Inr D \<and>
             (C = 0 \<or> (\<exists>i\<in>set (range_list 0 (py_int D) C). chunk_raises env D C i))))"
  proof (cases "open_audio env path")
    case (Some e)
    then show ?thesis by (simp add: transcribe_long_kannada_audio_def)
  next
    case None
    show ?thesis
    proof (cases "duration_seconds env path")
      case (Inl e)
      with None show ?thesis by (simp add: transcribe_long_kannada_audio_def)
    next
      case (Inr D)
      show ?thesis
      proof (cases "C = 0")
        case True
        with None Inr show ?thesis
          by (simp add: transcribe_long_kannada_audio_def py_range_def)
      next
        case False
        obtain tr res where
          cl: "chunk_loop env D C (range_list 0 (py_int D) C) [] [] = (tr, res)"
          by (cases "chunk_loop env D C (range_list 0 (py_int D) C) [] []") auto
        have "(\<exists>e. res = Inl e)
                \<longleftrightarrow> (\<exists>i\<in>set (range_list 0 (py_int D) C). chunk_raises env D C i)"
          using chunk_loop_raises_iff [of env D C "range_list 0 (py_int D) C" "[]" "[]"] cl
          by simp
        with None Inr False cl show ?thesis
          by (cases res) (simp_all add: transcribe_long_kannada_audio_def py_range_def)
      qed
    qed
  qed
next
  fix e assume "open_audio env path = Some e"
  then show "transcribe_long_kannada_audio env path C = ([Print (ErrorProcessingAudio e)], None)"
    by (simp add: transcribe_long_kannada_audio_def)
next
  fix D pre i post e
  assume a: "open_audio env path = None \<and> duration_seconds env path = Inr D \<and> C \<noteq> 0
         \<and> range_list 0 (py_int D) C = pre @ i # post
         \<and> (\<forall>j\<in>set pre. \<not> chunk_raises env D C j) \<and> seek env i = Some e"
  then obtain tr' acc' where pre: "chunk_loop env D C pre [] [] = (tr', Inr acc')"
    using chunk_loop_fine [of pre env D C "[]" "[]"] by blast
  have "chunk_loop env D C (pre @ i # post) [] []
          = (tr' @ [Print (ProcessingChunk (i div C + 1)), SeekTo i], Inl e)"
    using a pre by (simp add: chunk_loop_append Let_def)
  with a pre show "transcribe_long_kannada_audio env path C
              = (fst (chunk_loop env D C pre [] [])
                   @ [Print (ProcessingChunk (i div C + 1)), SeekTo i,
                      Print (ErrorProcessingAudio e)],
                 None)"
    by (simp add: transcribe_long_kannada_audio_def py_range_def)
qed

text \<open>
  A run on a 90 second file whose second seek fails: the first chunk is transcribed,
  the run ends at the seek to 30, and the third chunk is never reached.
\<close>

theorem C9_witness:
  "transcribe_long_kannada_audio
     ((stub_env 90 (\<lambda>c. Inr [104, 105]))
        \<lparr>seek := (\<lambda>i. if i = 30 then Some (OtherError ''seek'') else None)\<rparr>)
     ''a.wav'' 30
   = ([Print (ProcessingChunk 1), SeekTo 0, RecordFor 30, Recognize (0, 30),
       Print (ProcessingChunk 2), SeekTo 30,
       Print (ErrorProcessingAudio (OtherError ''seek''))], None)
   \<and> transcribe_long_kannada_audio
       ((stub_env 90 (\<lambda>c. Inr [104, 105]))
          \<lparr>open_audio := (\<lambda>p. Some (OtherError ''no such file''))\<rparr>)
       ''a.wav'' 30
     = ([Print (ErrorProcessingAudio (OtherError ''no such file''))], None)"
proof -
  let ?env = "(stub_env 90 (\<lambda>c. Inr [104, 105]))
        \<lparr>seek := (\<lambda>i. if i = 30 then Some (OtherError ''seek'') else None)\<rparr>"
  let ?env2 = "(stub_env 90 (\<lambda>c. Inr [104, 105]))
          \<lparr>open_audio := (\<lambda>p. Some (OtherError ''no such file''))\<rparr>"
  have r: "range_list 0 (py_int 90) 30 = [] @ 0 # [30, 60]"
    by (simp add: range_list_def range_len_def py_int_def upt_rec)
  have r': "range_list 0 (py_int 90) 30 = [0] @ 30 # [60]"
    by (simp add: range_list_def range_len_def py_int_def upt_rec)
  have h: "open_audio ?env ''a.wav'' = None \<and> duration_seconds ?env ''a.wav'' = Inr 90
         \<and> (30 :: int) \<noteq> 0
         \<and> range_list 0 (py_int 90) 30 = [0] @ 30 # [60]
         \<and> (\<forall>j\<in>set [0]. \<not> chunk_raises ?env 90 30 j)
         \<and> seek ?env 30 = Some (OtherError ''seek'')"
    using r' by (simp add: stub_env_def chunk_raises_def)
  have o: "open_audio ?env2 ''a.wav'' = Some (OtherError ''no such file'')"
    by (simp add: stub_env_def)
  note t = C9_whole_run_failure_returns_None [of ?env "''a.wav''" 30]
  note t2 = C9_whole_run_failure_returns_None [of ?env2 "''a.wav''" 30]
  from t h have 1: "transcribe_long_kannada_audio ?env ''a.wav'' 30
              = (fst (chunk_loop ?env 90 30 [0] [] [])
                   @ [Print (ProcessingChunk (30 div 30 + 1)), SeekTo 30,
                      Print (ErrorProcessingAudio (OtherError ''seek''))],
                 None)"
    by blast
  from t2 o have 2: "transcribe_long_kannada_audio ?env2 ''a.wav'' 30
       = ([Print (ErrorProcessingAudio (OtherError ''no such file''))], None)"
    by blast
  have 3: "fst (chunk_loop ?env 90 30 [0] [] [])
             = [Print (ProcessingChunk 1), SeekTo 0, RecordFor 30, Recognize (0, 30)]"
    by (simp add: stub_env_def Let_def)
  show ?thesis using 1 2 3 by simp
qed

text \<open>
  Against C9 as stated. On a file that opens and seeks without fault, the whole
  operation still fails when recognition raises an exception other than the two caught
  per chunk, and when the chunk duration is 0; and where the file cannot be opened the
  caller receives \<open>None\<close>, the reason being printed only.
\<close>

theorem C9_counterexample:
  "open_audio (stub_env 60 (\<lambda>c. Inl (OtherError ''connection reset''))) ''a.wav'' = None
   \<and> seek (stub_env 60 (\<lambda>c. Inl (OtherError ''connection reset''))) 0 = None
   \<and> transcribe_long_kannada_audio
       (stub_env 60 (\<lambda>c. Inl (OtherError ''connection reset''))) ''a.wav'' 30
     = ([Print (ProcessingChunk 1), SeekTo 0, RecordFor 30, Recognize (0, 30),
         Print (ErrorProcessingAudio (OtherError ''connection reset''))], None)
   \<and> transcribe_long_kannada_audio (stub_env 60 (\<lambda>c. Inr [104, 105])) ''a.wav'' 0
     = ([Print (ErrorProcessingAudio (ValueError ''range() arg 3 must not be zero''))], None)
   \<and> snd (transcribe_long_kannada_audio
       ((stub_env 60 (\<lambda>c. Inr [104, 105]))
          \<lparr>open_audio := (\<lambda>p. Some (OtherError ''no such file''))\<rparr>)
       ''a.wav'' 30) = None"
  by (simp add: transcribe_long_kannada_audio_def stub_env_def py_range_def range_list_def
      range_len_def py_int_def Let_def upt_rec)

section \<open>Joining and re-splitting\<close>

lemma split_on_not_Nil: "split_on d s \<noteq> []"
  by (induction s) (auto split: list.splits)

lemma length_split_on: "length (split_on d s) = Suc (count_list s d)"
  by (induction s) (auto simp: split_on_not_Nil split: list.splits)

lemma count_list_join:
  "segs \<noteq> [] \<Longrightarrow>
     count_list (join [d] segs) d
       = (length segs - 1) + sum_list (map (\<lambda>s. count_list s d) segs)"
  by (induction "[d]" segs rule: join.induct) simp_all

lemma split_on_no_delim: "d \<notin> set x \<Longrightarrow> split_on d x = [x]"
  by (induction x) auto

lemma split_on_append_delim:
  "d \<notin> set x \<Longrightarrow> split_on d (x @ d # s) = x # split_on d s"
  by (induction x) auto

lemma split_on_join:
  "segs \<noteq> [] \<Longrightarrow> \<forall>s\<in>set segs. d \<notin> set s \<Longrightarrow> split_on d (join [d] segs) = segs"
  by (induction "[d]" segs rule: join.induct)
     (simp_all add: split_on_no_delim split_on_append_delim)

text \<open>
  C7, as the code has it. The transcript is \<open>' '.join(full_text)\<close> with nothing
  escaped, so re-splitting it on the space gives one segment per chunk plus one for every
  space inside a chunk's text. The count of segments equals the count of chunks exactly
  when there is at least one chunk and no chunk's text contains a space; then re-splitting
  gives back the per-chunk texts themselves. In every case the count of segments is the
  count of chunks plus the count of spaces inside the chunks' texts, and 1 for a run of
  no chunks.
\<close>

theorem C7_resplit_count:
  "(length (split_on 32 (join space segs)) = length segs
      \<longleftrightarrow> segs \<noteq> [] \<and> (\<forall>s\<in>set segs. 32 \<notin> set s))
   \<and> (segs \<noteq> [] \<and> (\<forall>s\<in>set segs. 32 \<notin> set s) \<longrightarrow> split_on 32 (join space segs) = segs)
   \<and> length (split_on 32 (join space segs))
       = (if segs = [] then 1
          else length segs + sum_list (map (\<lambda>s. count_list s 32) segs))"
proof (cases "segs = []")
  case True
  then show ?thesis by (simp add: space_def)
next
  case False
  have n: "length (split_on 32 (join space segs))
          = length segs + sum_list (map (\<lambda>s. count_list s 32) segs)"
    using False by (simp add: length_split_on count_list_join space_def)
  have z: "sum_list (map (\<lambda>s. count_list s 32) segs) = 0
                   \<longleftrightarrow> (\<forall>s\<in>set segs. (32::nat) \<notin> set s)"
    by (induction segs) (auto simp: count_list_0_iff)
  have 1: "length (split_on 32 (join space segs)) = length segs
             \<longleftrightarrow> segs \<noteq> [] \<and> (\<forall>s\<in>set segs. 32 \<notin> set s)"
    using n z False by simp
  have 2: "segs \<noteq> [] \<and> (\<forall>s\<in>set segs. 32 \<notin> set s)
             \<longrightarrow> split_on 32 (join space segs) = segs"
    using split_on_join [of segs 32] by (simp add: space_def)
  have 3: "length (split_on 32 (join space segs))
       = (if segs = [] then 1
          else length segs + sum_list (map (\<lambda>s. count_list s 32) segs))"
    using n False by simp
  from 1 2 3 show ?thesis by blast
qed

theorem C7_witness:
  "length (split_on 32 (join space [[104, 105], unclear_sentinel, error_sentinel])) = 3
   \<and> split_on 32 (join space [[104, 105], unclear_sentinel, error_sentinel])
       = [[104, 105], unclear_sentinel, error_sentinel]
   \<and> length (split_on 32 (join space [[97, 32, 98], [99, 32, 100, 32, 101]])) = 5
   \<and> length (split_on 32 (join space [])) = 1"
proof -
  have h: "[[104, 105], unclear_sentinel, error_sentinel] \<noteq> []
           \<and> (\<forall>s\<in>set [[104, 105], unclear_sentinel, error_sentinel]. 32 \<notin> set s)"
    by (simp add: unclear_sentinel_def error_sentinel_def)
  from C7_resplit_count [of "[[104, 105], unclear_sentinel, error_sentinel]"] h
  have a: "length (split_on 32 (join space [[104, 105], unclear_sentinel, error_sentinel])) = 3
   \<and> split_on 32 (join space [[104, 105], unclear_sentinel, error_sentinel])
       = [[104, 105], unclear_sentinel, error_sentinel]"
    by simp
  from C7_resplit_count [of "[[97, 32, 98], [99, 32, 100, 32, 101]]"]
  have b: "length (split_on 32 (join space [[97, 32, 98], [99, 32, 100, 32, 101]])) = 5"
    by simp
  from C7_resplit_count [of "[]"]
  have c: "length (split_on 32 (join space [])) = 1"
    by simp
  from a b c show ?thesis by blast
qed

text \<open>
  Against C7 as stated: one chunk whose recognised text is "a b" re-splits into two
  segments, and a run of no chunks (the empty transcript) re-splits into one.
\<close>

theorem C7_counterexample:
  "snd (transcribe_long_kannada_audio (stub_env 10 (\<lambda>c. Inr [97, 32, 98])) ''a.wav'' 30)
     = Some [97, 32, 98]
   \<and> recognized (fst (transcribe_long_kannada_audio
                         (stub_env 10 (\<lambda>c. Inr [97, 32, 98])) ''a.wav'' 30))
     = [(0, 10)]
   \<and> split_on 32 (join space [[97, 32, 98]]) = [[97], [98]]
   \<and> length (split_on 32 (join space [[97, 32, 98]])) \<noteq> length [[97, 32, 98 :: nat]]
   \<and> split_on 32 (join space []) = [[]]"
  by (simp add: transcribe_long_kannada_audio_def stub_env_def py_range_def range_list_def
      range_len_def py_int_def Let_def space_def)

section \<open>Properties of whole-file transcription\<close>

text \<open>
  C8. Whole-file transcription of any path: once the file (converted first when it is
  not a \<open>.wav\<close>) is open, calibrated and recorded, a backend that raises "cannot decode
  speech" or a request error makes the function print its message and return \<open>None\<close>;
  the audio went to the backend once and nothing is raised to the caller, the result
  being a returned value.
\<close>

theorem C8_whole_file_failure_returns_None:
  assumes "p = (if endswith (lower path) ''.wav'' then path else rsplit_head path @ ''.wav'')"
    and "endswith (lower path) ''.wav'' \<or> export_wav env path p = None"
    and "open_audio env p = None"
    and "adjust_for_ambient_noise env p = None"
    and "record_whole env p = Inr a"
    and "recognize_google env a = Inl e"
    and "e = UnknownValueError \<or> (\<exists>d. e = RequestError d)"
  shows "snd (transcribe_kannada_audio env path) = None
         \<and> recognized (fst (transcribe_kannada_audio env path)) = [a]
         \<and> last (fst (transcribe_kannada_audio env path)) = Print (report e)
         \<and> (e = UnknownValueError \<longrightarrow> report e = CouldNotUnderstand)
         \<and> (\<forall>d. e = RequestError d \<longrightarrow> report e = CouldNotRequest d)"
proof (cases "endswith (lower path) ''.wav''")
  case True
  with assms show ?thesis
    by (auto simp: transcribe_kannada_audio_def transcribe_opened_def Let_def)
next
  case False
  with assms show ?thesis
    by (auto simp: transcribe_kannada_audio_def transcribe_opened_def convert_to_wav_def
        Let_def)
qed

theorem C8_witness:
  "transcribe_kannada_audio (stub_env 5 (\<lambda>c. Inl UnknownValueError)) ''clip.WAV''
     = ([Print (AudioFilePath ''clip.WAV''), Print AdjustingNoise, Print ProcessingAudio,
         RecordAll, Print Transcribing, Recognize (0, 5), Print CouldNotUnderstand], None)
   \<and> snd (transcribe_kannada_audio (stub_env 5 (\<lambda>c. Inl (RequestError ''quota''))) ''clip.mp3'')
     = None
   \<and> last (fst (transcribe_kannada_audio
                   (stub_env 5 (\<lambda>c. Inl (RequestError ''quota''))) ''clip.mp3''))
     = Print (CouldNotRequest ''quota'')"
proof -
  let ?e1 = "stub_env 5 (\<lambda>c. Inl UnknownValueError) :: (int \<times> rat) speech_env"
  let ?e2 = "stub_env 5 (\<lambda>c. Inl (RequestError ''quota'')) :: (int \<times> rat) speech_env"
  have w: "endswith (lower ''clip.WAV'') ''.wav''"
    by code_simp
  have m: "\<not> endswith (lower ''clip.mp3'') ''.wav''"
    by code_simp
  have hd: "rsplit_head ''clip.mp3'' @ ''.wav'' = ''clip.wav''"
    by (simp add: rsplit_head_def)
  have 1: "snd (transcribe_kannada_audio ?e2 ''clip.mp3'') = None
         \<and> recognized (fst (transcribe_kannada_audio ?e2 ''clip.mp3'')) = [(0, 5)]
         \<and> last (fst (transcribe_kannada_audio ?e2 ''clip.mp3''))
             = Print (report (RequestError ''quota''))
         \<and> (RequestError ''quota'' = UnknownValueError
              \<longrightarrow> report (RequestError ''quota'') = CouldNotUnderstand)
         \<and> (\<forall>d. RequestError ''quota'' = RequestError d
              \<longrightarrow> report (RequestError ''quota'') = CouldNotRequest d)"
    by (rule C8_whole_file_failure_returns_None
          [of "''clip.wav''" "''clip.mp3''" ?e2 "(0, 5)" "RequestError ''quota''"])
       (simp_all add: m hd stub_env_def)
  have 2: "transcribe_kannada_audio ?e1 ''clip.WAV''
     = ([Print (AudioFilePath ''clip.WAV''), Print AdjustingNoise, Print ProcessingAudio,
         RecordAll, Print Transcribing, Recognize (0, 5), Print CouldNotUnderstand], None)"
    using w by (simp add: transcribe_kannada_audio_def transcribe_opened_def stub_env_def Let_def)
  show ?thesis using 1 2 by simp
qed

section \<open>Properties of format selection\<close>


lemma first_error_None_iff:
  "first_error ks = None \<longleftrightarrow> (\<forall>k\<in>set ks. \<exists>r. k = Inr r)"
  by (induction ks rule: first_error.induct) auto

lemma first_error_Some_iff:
  "(\<exists>e. first_error ks = Some e) \<longleftrightarrow> (\<exists>k\<in>set ks. \<exists>e. k = Inl e)"
  by (induction ks rule: first_error.induct) auto


lemma abr_key_missing:
  "map_of x ''abr'' = None \<or> (\<exists>v. map_of x ''abr'' = Some v \<and> \<not> truthy v)
     \<Longrightarrow> abr_key x = Inr 0"
  by (auto simp: abr_key_def or_zero_def)







lemma abr_key_fails_iff:
  "(\<exists>e. abr_key x = Inl e) \<longleftrightarrow>
     (\<exists>s. s \<noteq> [] \<and> map_of x ''abr'' = Some (PyStr s None))
     \<or> (\<exists>vs. vs \<noteq> [] \<and> map_of x ''abr'' = Some (PyList vs))"
proof (cases "map_of x ''abr''")
  case None
  then show ?thesis by (simp add: abr_key_def or_zero_def)
next
  case (Some v)
  then show ?thesis
  proof (cases v)
    case (PyStr s c)
    with Some show ?thesis by (cases c) (auto simp: abr_key_def or_zero_def)
  qed (auto simp: abr_key_def or_zero_def)
qed

text \<open>
  C6, as the code has it. The key is \<open>float(x.get('abr', 0) or 0)\<close>: a bitrate that is
  missing, \<open>None\<close> or otherwise false (0, the empty string) ranks as 0. Where every
  candidate's bitrate converts, the sort succeeds, keeps every candidate and orders them
  by bitrate descending. A bitrate that is a non-empty string \<open>float()\<close> rejects, or a
  non-empty container, raises: the sort and the selection end in that exception.
\<close>

theorem C6_ranking_and_unconvertible_bitrates:
  "(map_of x ''abr'' = None \<or> (\<exists>v. map_of x ''abr'' = Some v \<and> \<not> truthy v)
      \<longrightarrow> abr_key x = Inr 0)
   \<and> ((\<forall>y\<in>set afs. \<exists>k. abr_key y = Inr k) \<longrightarrow>
        (\<exists>ys. sort_formats afs = Inr ys \<and> mset ys = mset afs
              \<and> sorted (map (\<lambda>y. - key_val y) ys)))
   \<and> ((\<exists>y\<in>set afs. \<exists>e. abr_key y = Inl e) \<longrightarrow>
        (\<exists>e. sort_formats afs = Inl e \<and> best_audio afs = Inl e))
   \<and> ((\<exists>e. abr_key x = Inl e) \<longleftrightarrow>
        (\<exists>s. s \<noteq> [] \<and> map_of x ''abr'' = Some (PyStr s None))
        \<or> (\<exists>vs. vs \<noteq> [] \<and> map_of x ''abr'' = Some (PyList vs)))"
proof (intro conjI impI)
  assume "map_of x ''abr'' = None \<or> (\<exists>v. map_of x ''abr'' = Some v \<and> \<not> truthy v)"
  then show "abr_key x = Inr 0" by (rule abr_key_missing)
next
  assume "\<forall>y\<in>set afs. \<exists>k. abr_key y = Inr k"
  then have "first_error (map abr_key afs) = None" by (simp add: first_error_None_iff)
  then have "sort_formats afs = Inr (sort_key (\<lambda>y. - key_val y) afs)"
    by (simp add: sort_formats_def)
  then show "\<exists>ys. sort_formats afs = Inr ys \<and> mset ys = mset afs
              \<and> sorted (map (\<lambda>y. - key_val y) ys)"
    by (simp add: sorted_sort_key)
next
  assume a: "\<exists>y\<in>set afs. \<exists>e. abr_key y = Inl e"
  then have "\<exists>e. first_error (map abr_key afs) = Some e"
    using first_error_Some_iff [of "map abr_key afs"] by auto
  then obtain e where "first_error (map abr_key afs) = Some e" ..
  moreover from a have "afs \<noteq> []" by auto
  ultimately show "\<exists>e. sort_formats afs = Inl e \<and> best_audio afs = Inl e"
    by (simp add: sort_formats_def best_audio_def)
next
  show "(\<exists>e. abr_key x = Inl e) \<longleftrightarrow>
        (\<exists>s. s \<noteq> [] \<and> map_of x ''abr'' = Some (PyStr s None))
        \<or> (\<exists>vs. vs \<noteq> [] \<and> map_of x ''abr'' = Some (PyList vs))"
    by (rule abr_key_fails_iff)
qed

theorem C6_witness:
  "sort_formats [[(''format_id'', PyStr ''600'' (Some 600))],
                 [(''format_id'', PyStr ''139'' (Some 139)), (''abr'', PyNum 48)],
                 [(''format_id'', PyStr ''601'' (Some 601)), (''abr'', PyNone)]]
     = Inr [[(''format_id'', PyStr ''139'' (Some 139)), (''abr'', PyNum 48)],
            [(''format_id'', PyStr ''600'' (Some 600))],
            [(''format_id'', PyStr ''601'' (Some 601)), (''abr'', PyNone)]]
   \<and> abr_key [(''format_id'', PyStr ''600'' (Some 600))] = Inr 0
   \<and> abr_key [(''format_id'', PyStr ''601'' (Some 601)), (''abr'', PyNone)] = Inr 0
   \<and> (\<exists>e. best_audio [[(''format_id'', PyStr ''139'' (Some 139)), (''abr'', PyNum 48)],
                       [(''format_id'', PyStr ''140'' (Some 140)),
                        (''abr'', PyStr ''n/a'' None)]] = Inl e)"
proof -
  let ?a = "[(''format_id'', PyStr ''600'' (Some 600))] :: fmt"
  let ?b = "[(''format_id'', PyStr ''139'' (Some 139)), (''abr'', PyNum 48)] :: fmt"
  let ?c = "[(''format_id'', PyStr ''601'' (Some 601)), (''abr'', PyNone)] :: fmt"
  let ?d = "[(''format_id'', PyStr ''140'' (Some 140)), (''abr'', PyStr ''n/a'' None)] :: fmt"
  have ka: "map_of ?a ''abr'' = None \<or> (\<exists>v. map_of ?a ''abr'' = Some v \<and> \<not> truthy v)"
    by simp
  have kc: "map_of ?c ''abr'' = None \<or> (\<exists>v. map_of ?c ''abr'' = Some v \<and> \<not> truthy v)"
    by simp
  have ok: "\<forall>y\<in>set [?a, ?b, ?c]. \<exists>k. abr_key y = Inr k"
    by (simp add: abr_key_def or_zero_def)
  have bad: "\<exists>y\<in>set [?b, ?d]. \<exists>e. abr_key y = Inl e"
    by (simp add: abr_key_def or_zero_def)
  have s: "sort_formats [?a, ?b, ?c] = Inr [?b, ?a, ?c]"
    by (simp add: sort_formats_def abr_key_def or_zero_def key_val_def)
  from C6_ranking_and_unconvertible_bitrates [of ?a "[?a, ?b, ?c]"] ka
  have 1: "abr_key ?a = Inr 0" by blast
  from C6_ranking_and_unconvertible_bitrates [of ?c "[?a, ?b, ?c]"] kc
  have 2: "abr_key ?c = Inr 0" by blast
  from C6_ranking_and_unconvertible_bitrates [of ?a "[?b, ?d]"] bad
  have 3: "\<exists>e. best_audio [?b, ?d] = Inl e" by blast
  show ?thesis using s 1 2 3 by simp
qed

text \<open>
  Against C6 as stated: a single audio-only candidate whose bitrate is the string "abc"
  is not ranked with bitrate 0; the sort raises ValueError, which reaches the caller of
  \<open>extract_audio_from_stream\<close>, and nothing is downloaded.
\<close>

theorem C6_counterexample:
  "best_audio (audio_formats_of
       [[(''format_id'', PyStr ''140'' (Some 140)), (''vcodec'', PyStr ''none'' None),
         (''abr'', PyStr ''abc'' None)]])
     = Inl (ValueError ''could not convert string to float'')
   \<and> extract_audio_from_stream
       (stub_ytb [[(''format_id'', PyStr ''140'' (Some 140)), (''vcodec'', PyStr ''none'' None),
                   (''abr'', PyStr ''abc'' None)]])
       ''https://example.org/v'' ''downloads''
     = ([MakeDirs ''downloads'', ExtractInfo ''https://example.org/v'',
         WriteJson [[(''format_id'', PyStr ''140'' (Some 140)),
                     (''vcodec'', PyStr ''none'' None), (''abr'', PyStr ''abc'' None)]],
         YPrint (AudioFormatsJson [[(''format_id'', PyStr ''140'' (Some 140)),
                                    (''vcodec'', PyStr ''none'' None),
                                    (''abr'', PyStr ''abc'' None)]])],
        Inl (ValueError ''could not convert string to float''))"
  by (simp add: extract_audio_from_stream_def get_available_formats_def stub_ytb_def
      audio_formats_of_def get_is_def best_audio_def sort_formats_def abr_key_def or_zero_def)

text \<open>The entry picked is the one whose \<open>format_id\<close> is handed to the download.\<close>

lemma extract_downloads_best_audio:
  assumes "makedirs env output_dir = None" and "extract_info env url = Inr formats"
    and "write_json env formats = None"
    and "best_audio (audio_formats_of formats) = Inr (Some b)"
    and "map_of b ''format_id'' = Some format_id"
  shows "downloads (fst (extract_audio_from_stream env url output_dir)) = [format_id]"
  using assms
  by (cases "download env format_id
               (path_join output_dir (''audio_stream_'' @ now env)) url")
     (simp_all add: extract_audio_from_stream_def get_available_formats_def Let_def)

end
